theory Spec2Isabelle
  imports
    Complex_Main
    "HOL-Library.AList"
    "HOL-Library.Char_ord"
    "HOL-Library.List_Lexorder"
    "HOL-Library.Multiset"
begin

section \<open>Values of the runtime\<close>

text \<open>
  The queue consumer receives \<^verbatim>\<open>batch: any\<close> and casts each message body to
  \<^verbatim>\<open>QueueEvent\<close>, so the fields of an event are arbitrary JavaScript values at run
  time. The values below are the primitive ones; \<open>JNum\<close> stands for an integral number
  (a safe integer, printed in plain decimal by a template literal).
\<close>

datatype jsval = JUndefined | JNull | JBool bool | JNum int | JStr string

text \<open>Truthiness, as the operator \<^verbatim>\<open>!\<close> sees it.\<close>

fun truthy :: "jsval \<Rightarrow> bool" where
  "truthy JUndefined = False"
| "truthy JNull = False"
| "truthy (JBool b) = b"
| "truthy (JNum n) = (n \<noteq> 0)"
| "truthy (JStr s) = (s \<noteq> [])"

text \<open>Decimal rendering of a number, as a template literal prints it.\<close>

definition digit_char :: "nat \<Rightarrow> char" where
  "digit_char d = ''0123456789'' ! d"

fun digits :: "nat \<Rightarrow> string" where
  "digits n = (if n < 10 then [digit_char n] else digits (n div 10) @ [digit_char (n mod 10)])"

declare digits.simps [simp del]

definition int_to_string :: "int \<Rightarrow> string" where
  "int_to_string i = (if i < 0 then CHR ''-'' # digits (nat (- i)) else digits (nat i))"

fun ToString :: "jsval \<Rightarrow> string" where
  "ToString JUndefined = ''undefined''"
| "ToString JNull = ''null''"
| "ToString (JBool b) = (if b then ''true'' else ''false'')"
| "ToString (JNum n) = int_to_string n"
| "ToString (JStr s) = s"

section \<open>The queue consumer (src/events-consumer.ts)\<close>

subsection \<open>Data\<close>

text \<open>
  The eight counters. \<^verbatim>\<open>CompanyReportTotals\<close> of the reports worker and the value
  type of \<^verbatim>\<open>aggregates\<close> in the consumer carry the same eight fields.
\<close>

record CompanyReportTotals =
  views_profile :: int
  impressions_search :: int
  impressions_map :: int
  clicks_phone :: int
  clicks_site :: int
  clicks_email :: int
  clicks_directions :: int
  leads_form :: int

text \<open>The value type of \<^verbatim>\<open>aggregates\<close>: the counters with \<^verbatim>\<open>companyId\<close> and \<^verbatim>\<open>date\<close>.\<close>

record aggregate = CompanyReportTotals +
  agg_companyId :: jsval
  agg_date :: string

record QueueEvent =
  companyId :: jsval
  etype :: jsval
  createdAt :: jsval
  meta :: jsval

text \<open>
  A message of the batch: its body, taken to be an object (the fields of an event may
  be anything, the event itself is there), and an identity by which an \<^verbatim>\<open>ack()\<close>
  is told.
\<close>

record message =
  msg_id :: nat
  body :: QueueEvent

text \<open>
  What a call can throw: the TypeError of a method call on a value that has no such
  method, the RangeError of \<^verbatim>\<open>toISOString\<close> on an invalid date, the URIError of
  \<^verbatim>\<open>decodeURIComponent\<close> on a malformed escape, and an error of the D1 binding
  with its message.
\<close>

datatype js_error = TypeError | RangeError | URIError | D1Error string

type_synonym aggregates = "(string \<times> aggregate) list"

subsection \<open>The aggregation loop (lines 27-93)\<close>

text \<open>The object literal of lines 46-57.\<close>

definition new_aggregate :: "jsval \<Rightarrow> string \<Rightarrow> aggregate" where
  "new_aggregate cid d =
     \<lparr> views_profile = 0, impressions_search = 0, impressions_map = 0,
       clicks_phone = 0, clicks_site = 0, clicks_email = 0,
       clicks_directions = 0, leads_form = 0,
       agg_companyId = cid, agg_date = d \<rparr>"

text \<open>The \<^verbatim>\<open>switch\<close> of lines 62-92; the \<^verbatim>\<open>default\<close> branch only logs.\<close>

definition bump :: "jsval \<Rightarrow> aggregate \<Rightarrow> aggregate" where
  "bump t agg =
     (if t = JStr ''PROFILE_VIEW'' then agg\<lparr>views_profile := views_profile agg + 1\<rparr>
      else if t = JStr ''SEARCH_IMPRESSION'' then agg\<lparr>impressions_search := impressions_search agg + 1\<rparr>
      else if t = JStr ''MAP_IMPRESSION'' then agg\<lparr>impressions_map := impressions_map agg + 1\<rparr>
      else if t = JStr ''CLICK_PHONE'' then agg\<lparr>clicks_phone := clicks_phone agg + 1\<rparr>
      else if t = JStr ''CLICK_SITE'' then agg\<lparr>clicks_site := clicks_site agg + 1\<rparr>
      else if t = JStr ''CLICK_EMAIL'' then agg\<lparr>clicks_email := clicks_email agg + 1\<rparr>
      else if t = JStr ''CLICK_DIRECTIONS'' then agg\<lparr>clicks_directions := clicks_directions agg + 1\<rparr>
      else if t = JStr ''FORM_SUBMIT'' then agg\<lparr>leads_form := leads_form agg + 1\<rparr>
      else agg)"

text \<open>
  One iteration of the loop. \<^verbatim>\<open>aggregates\<close> is an object used as a dictionary; its
  keys are never integer-like (each holds a colon), so \<^verbatim>\<open>Object.keys\<close> lists them in
  insertion order: an association list, a new key appended at the end, an existing
  entry changed in place. \<^verbatim>\<open>e.createdAt.slice\<close> is not a function when
  \<^verbatim>\<open>createdAt\<close> is a truthy value that is not a string: a TypeError, thrown outside
  the \<^verbatim>\<open>try\<close>.
\<close>

definition step :: "aggregates \<Rightarrow> QueueEvent \<Rightarrow> js_error + aggregates" where
  "step aggs e =
     (if \<not> truthy (companyId e) \<or> \<not> truthy (createdAt e) then Inr aggs
      else case createdAt e of
        JStr s \<Rightarrow>
          (let date = take 10 s;
               key = ToString (companyId e) @ '':'' @ date;
               aggs' = (if map_of aggs key = None
                        then AList.update key (new_aggregate (companyId e) date) aggs
                        else aggs)
           in Inr (AList.map_entry key (bump (etype e)) aggs'))
      | _ \<Rightarrow> Inl TypeError)"

fun aggregate_loop :: "aggregates \<Rightarrow> message list \<Rightarrow> js_error + aggregates" where
  "aggregate_loop aggs [] = Inr aggs"
| "aggregate_loop aggs (msg # msgs) =
     (case step aggs (body msg) of
        Inl err \<Rightarrow> Inl err
      | Inr aggs' \<Rightarrow> aggregate_loop aggs' msgs)"

definition aggregate_batch :: "message list \<Rightarrow> js_error + aggregates" where
  "aggregate_batch msgs = aggregate_loop [] msgs"

subsection \<open>Writing and acknowledging (lines 130-173)\<close>

text \<open>
  \<^verbatim>\<open>env.DB\<close> is a parameter of \<^verbatim>\<open>queue\<close>: \<open>run agg db\<close> is the bound statement
  run on the store \<open>db\<close>, giving the store after it, or the error it throws.
  The loop stops at the first error, with the store as the writes before it left it.
\<close>

fun write_all :: "(aggregate \<Rightarrow> 'db \<Rightarrow> js_error + 'db) \<Rightarrow> aggregate list \<Rightarrow> 'db \<Rightarrow> 'db \<times> js_error option" where
  "write_all run [] db = (db, None)"
| "write_all run (agg # aggs) db =
     (case run agg db of
        Inl err \<Rightarrow> (db, Some err)
      | Inr db' \<Rightarrow> write_all run aggs db')"

text \<open>
  What a call of \<^verbatim>\<open>queue\<close> leaves behind: the store, the messages acknowledged (in
  the order of their \<^verbatim>\<open>ack()\<close> calls) and the error the call throws, if any.
\<close>

record 'db queue_result =
  store :: 'db
  acked :: "message list"
  thrown :: "js_error option"

text \<open>\<^verbatim>\<open>batch.messages || []\<close>: a batch without a message array is an empty one.\<close>

definition batch_messages :: "message list option \<Rightarrow> message list" where
  "batch_messages b = (case b of None \<Rightarrow> [] | Some msgs \<Rightarrow> msgs)"

definition queue :: "(aggregate \<Rightarrow> 'db \<Rightarrow> js_error + 'db) \<Rightarrow> message list option \<Rightarrow> 'db \<Rightarrow> 'db queue_result" where
  "queue run b db =
     (let messages = batch_messages b in
      case aggregate_batch messages of
        Inl err \<Rightarrow> \<lparr> store = db, acked = [], thrown = Some err \<rparr>
      | Inr aggs \<Rightarrow>
          (case write_all run (map snd aggs) db of
             (db', None) \<Rightarrow> \<lparr> store = db', acked = messages, thrown = None \<rparr>
           | (db', Some err) \<Rightarrow> \<lparr> store = db', acked = [], thrown = Some err \<rparr>))"

section \<open>The statistics store\<close>

text \<open>
  The two tables the code reads and writes, as lists of rows. A counter column may
  hold NULL (the readers guard each with \<^verbatim>\<open>?? 0\<close>). \<open>col_company_id\<close> holds the
  value bound by the writer, compared as a value with the integer of \<^verbatim>\<open>companies.id\<close>.
\<close>

record CompanyMeta =
  id' :: int
  slug :: string
  name :: string
  city_name :: "string option"
  city_slug :: "string option"
  country_code :: "string option"
  primary_category_slug :: "string option"
  plan_type :: "string option"

record stats_row =
  col_company_id :: jsval
  col_date :: string
  col_views_profile :: "int option"
  col_impressions_search :: "int option"
  col_impressions_map :: "int option"
  col_clicks_phone :: "int option"
  col_clicks_site :: "int option"
  col_clicks_email :: "int option"
  col_clicks_directions :: "int option"
  col_leads_form :: "int option"

record D1Database =
  companies :: "CompanyMeta list"
  company_daily_stats :: "stats_row list"

subsection \<open>The statement of lines 111-128\<close>

text \<open>
  \<^verbatim>\<open>INSERT ... ON CONFLICT(company_id, date) DO UPDATE SET c = c + excluded.c\<close>:
  a row with the bound key has the bound counters added (NULL plus a number is NULL),
  otherwise a row with the bound values is inserted.
\<close>

definition conflicts :: "aggregate \<Rightarrow> stats_row \<Rightarrow> bool" where
  "conflicts agg r = (col_company_id r = agg_companyId agg \<and> col_date r = agg_date agg)"

definition excluded :: "aggregate \<Rightarrow> stats_row" where
  "excluded agg =
     \<lparr> col_company_id = agg_companyId agg, col_date = agg_date agg,
       col_views_profile = Some (views_profile agg),
       col_impressions_search = Some (impressions_search agg),
       col_impressions_map = Some (impressions_map agg),
       col_clicks_phone = Some (clicks_phone agg),
       col_clicks_site = Some (clicks_site agg),
       col_clicks_email = Some (clicks_email agg),
       col_clicks_directions = Some (clicks_directions agg),
       col_leads_form = Some (leads_form agg) \<rparr>"

definition do_update :: "aggregate \<Rightarrow> stats_row \<Rightarrow> stats_row" where
  "do_update agg r =
     r\<lparr> col_views_profile := map_option (\<lambda>v. v + views_profile agg) (col_views_profile r),
        col_impressions_search := map_option (\<lambda>v. v + impressions_search agg) (col_impressions_search r),
        col_impressions_map := map_option (\<lambda>v. v + impressions_map agg) (col_impressions_map r),
        col_clicks_phone := map_option (\<lambda>v. v + clicks_phone agg) (col_clicks_phone r),
        col_clicks_site := map_option (\<lambda>v. v + clicks_site agg) (col_clicks_site r),
        col_clicks_email := map_option (\<lambda>v. v + clicks_email agg) (col_clicks_email r),
        col_clicks_directions := map_option (\<lambda>v. v + clicks_directions agg) (col_clicks_directions r),
        col_leads_form := map_option (\<lambda>v. v + leads_form agg) (col_leads_form r) \<rparr>"

definition upsert :: "aggregate \<Rightarrow> D1Database \<Rightarrow> D1Database" where
  "upsert agg db =
     db\<lparr> company_daily_stats :=
       (if list_ex (conflicts agg) (company_daily_stats db)
        then map (\<lambda>r. if conflicts agg r then do_update agg r else r) (company_daily_stats db)
        else company_daily_stats db @ [excluded agg]) \<rparr>"

text \<open>The statement run on a store that takes every write.\<close>

definition d1_run :: "aggregate \<Rightarrow> D1Database \<Rightarrow> js_error + D1Database" where
  "d1_run agg db = Inr (upsert agg db)"

text \<open>A store that only records the statements run on it, in order.\<close>

definition log_run :: "aggregate \<Rightarrow> aggregate list \<Rightarrow> js_error + aggregate list" where
  "log_run agg seen = Inr (seen @ [agg])"

section \<open>The reports worker (src/reports-worker.ts), GET requests\<close>

subsection \<open>Numbers and dates of the runtime\<close>

text \<open>
  A number as \<^verbatim>\<open>Number(...)\<close> returns it: not-a-number, an infinity, or a finite
  value (an exact rational here; the rounding of doubles is not modelled).
\<close>

datatype jsnum = NaN | PosInfinity | NegInfinity | Fin rat

definition ms_per_day :: int where
  "ms_per_day = 24 * 60 * 60 * 1000"

text \<open>
  The time value of \<^verbatim>\<open>new Date(t)\<close>: invalid (\<open>None\<close>) beyond 8.64e15 milliseconds
  from the epoch, else \<open>t\<close> truncated towards zero.
\<close>

definition TimeClip :: "rat \<Rightarrow> int option" where
  "TimeClip t =
     (if \<bar>t\<bar> > 8640000000000000 then None
      else Some (if t \<ge> 0 then \<lfloor>t\<rfloor> else \<lceil>t\<rceil>))"

text \<open>Year, month and day of the month of a day number (days since 1970-01-01, UTC).\<close>

definition civil_from_days :: "int \<Rightarrow> int \<times> int \<times> int" where
  "civil_from_days z =
     (let z' = z + 719468;
          era = z' div 146097;
          doe = z' - era * 146097;
          yoe = (doe - doe div 1460 + doe div 36524 - doe div 146096) div 365;
          doy = doe - (365 * yoe + yoe div 4 - yoe div 100);
          mp = (5 * doy + 2) div 153;
          d = doy - (153 * mp + 2) div 5 + 1;
          m = (if mp < 10 then mp + 3 else mp - 9);
          y = yoe + era * 400 + (if m \<le> 2 then 1 else 0)
      in (y, m, d))"

definition pad :: "nat \<Rightarrow> int \<Rightarrow> string" where
  "pad w n = replicate (w - length (digits (nat n))) CHR ''0'' @ digits (nat n)"

text \<open>
  The first ten characters of \<^verbatim>\<open>toISOString()\<close>: the calendar day for the years 0 to
  9999, and the start of the expanded form (a sign and six digits of year) outside them.
  On an invalid date \<^verbatim>\<open>toISOString\<close> throws a RangeError.
\<close>

definition iso_date :: "int \<Rightarrow> string" where
  "iso_date t =
     (case civil_from_days (t div ms_per_day) of (y, m, d) \<Rightarrow>
        take 10 ((if 0 \<le> y \<and> y \<le> 9999 then pad 4 y
                  else (if y < 0 then CHR ''-'' else CHR ''+'') # pad 6 \<bar>y\<bar>)
                 @ ''-'' @ pad 2 m @ ''-'' @ pad 2 d))"

definition toISOString_slice :: "int option \<Rightarrow> js_error + string" where
  "toISOString_slice tv = (case tv of None \<Rightarrow> Inl RangeError | Some t \<Rightarrow> Inr (iso_date t))"

subsection \<open>The date range (lines 215-227)\<close>

record range' =
  range_from :: string
  range_to :: string
  range_days :: rat

text \<open>
  \<^verbatim>\<open>Number(searchParams.get("days") || "30")\<close>. The query parameter is taken as
  \<open>None\<close> when it is missing or empty (then \<^verbatim>\<open>"30"\<close> is read, the number 30)
  and as \<open>Some v\<close>, \<open>v\<close> the number that \<^verbatim>\<open>Number\<close> reads from it, otherwise.
\<close>

definition daysParam :: "jsnum option \<Rightarrow> jsnum" where
  "daysParam q = (case q of None \<Rightarrow> Fin 30 | Some v \<Rightarrow> v)"

text \<open>\<^verbatim>\<open>Number.isFinite(daysParam) && daysParam > 0 ? daysParam : 30\<close>\<close>

definition days_of :: "jsnum \<Rightarrow> rat" where
  "days_of v = (case v of Fin x \<Rightarrow> if x > 0 then x else 30 | _ \<Rightarrow> 30)"

text \<open>
  \<open>now\<close> is the clock, in milliseconds since the epoch. \<^verbatim>\<open>Date.UTC\<close> of its year,
  month and day is the start of its UTC day.
\<close>

definition fetch_range :: "int \<Rightarrow> jsnum option \<Rightarrow> js_error + range'" where
  "fetch_range now q =
     (let days = days_of (daysParam q);
          toDate = TimeClip (of_int ((now div ms_per_day) * ms_per_day));
          fromDate = (case toDate of None \<Rightarrow> None
                      | Some t \<Rightarrow> TimeClip (of_int t - (days - 1) * 24 * 60 * 60 * 1000))
      in case toISOString_slice fromDate of
           Inl err \<Rightarrow> Inl err
         | Inr fromStr \<Rightarrow>
             (case toISOString_slice toDate of
                Inl err \<Rightarrow> Inl err
              | Inr toStr \<Rightarrow>
                  Inr \<lparr> range_from = fromStr, range_to = toStr, range_days = days \<rparr>))"

subsection \<open>Responses\<close>

record daily_item = CompanyReportTotals +
  date :: string

record report_stats =
  totals :: CompanyReportTotals
  daily :: "daily_item list"

record CompanyReport =
  company :: CompanyMeta
  report_range :: range'
  last_30_days :: report_stats

record SummaryItem =
  item_company :: CompanyMeta
  item_totals :: CompanyReportTotals

record SummaryResponse =
  summary_range :: range'
  items :: "SummaryItem list"

datatype json_body = ErrorBody string | ReportBody CompanyReport | SummaryBody SummaryResponse

record Response =
  status :: nat
  json :: json_body

definition emptyTotals :: CompanyReportTotals where
  "emptyTotals =
     \<lparr> views_profile = 0, impressions_search = 0, impressions_map = 0,
       clicks_phone = 0, clicks_site = 0, clicks_email = 0,
       clicks_directions = 0, leads_form = 0 \<rparr>"

text \<open>\<^verbatim>\<open>jsonResponse(body, init)\<close>: the status of \<^verbatim>\<open>init\<close>, 200 when it gives none.\<close>

definition jsonResponse :: "json_body \<Rightarrow> nat option \<Rightarrow> Response" where
  "jsonResponse b init = \<lparr> status = (case init of None \<Rightarrow> 200 | Some st \<Rightarrow> st), json = b \<rparr>"

text \<open>\<^verbatim>\<open>Number(v ?? 0)\<close> on a column value.\<close>

definition number_or_0 :: "int option \<Rightarrow> int" where
  "number_or_0 v = (case v of None \<Rightarrow> 0 | Some n \<Rightarrow> n)"

subsection \<open>The company report (lines 236-371)\<close>

text \<open>\<^verbatim>\<open>SELECT ... FROM companies WHERE slug = ?\<close> with \<^verbatim>\<open>.first()\<close>.\<close>

definition first_company :: "D1Database \<Rightarrow> string \<Rightarrow> CompanyMeta option" where
  "first_company db s = find (\<lambda>c. slug c = s) (companies db)"

text \<open>
  The statement of lines 287-307: the rows of the company with
  \<^verbatim>\<open>date >= ? AND date <= ?\<close> (text compared byte by byte), \<^verbatim>\<open>ORDER BY date ASC\<close>.
\<close>

definition in_range :: "jsval \<Rightarrow> string \<Rightarrow> string \<Rightarrow> stats_row \<Rightarrow> bool" where
  "in_range cid fromStr toStr r =
     (col_company_id r = cid \<and> fromStr \<le> col_date r \<and> col_date r \<le> toStr)"

definition stats_query :: "D1Database \<Rightarrow> int \<Rightarrow> string \<Rightarrow> string \<Rightarrow> stats_row list" where
  "stats_query db companyId' fromStr toStr =
     sort_key col_date (filter (in_range (JNum companyId') fromStr toStr) (company_daily_stats db))"

text \<open>The object \<^verbatim>\<open>item\<close> of lines 320-330.\<close>

definition item_of :: "stats_row \<Rightarrow> daily_item" where
  "item_of row =
     \<lparr> views_profile = number_or_0 (col_views_profile row),
       impressions_search = number_or_0 (col_impressions_search row),
       impressions_map = number_or_0 (col_impressions_map row),
       clicks_phone = number_or_0 (col_clicks_phone row),
       clicks_site = number_or_0 (col_clicks_site row),
       clicks_email = number_or_0 (col_clicks_email row),
       clicks_directions = number_or_0 (col_clicks_directions row),
       leads_form = number_or_0 (col_leads_form row),
       date = col_date row \<rparr>"

text \<open>Lines 334-341.\<close>

definition add_item :: "CompanyReportTotals \<Rightarrow> daily_item \<Rightarrow> CompanyReportTotals" where
  "add_item t item =
     t\<lparr> views_profile := views_profile t + views_profile item,
        impressions_search := impressions_search t + impressions_search item,
        impressions_map := impressions_map t + impressions_map item,
        clicks_phone := clicks_phone t + clicks_phone item,
        clicks_site := clicks_site t + clicks_site item,
        clicks_email := clicks_email t + clicks_email item,
        clicks_directions := clicks_directions t + clicks_directions item,
        leads_form := leads_form t + leads_form item \<rparr>"

text \<open>The loop of lines 319-342, on \<^verbatim>\<open>totals\<close> and \<^verbatim>\<open>daily\<close>.\<close>

fun report_loop :: "report_stats \<Rightarrow> stats_row list \<Rightarrow> report_stats" where
  "report_loop acc [] = acc"
| "report_loop acc (row # rows) =
     (let item = item_of row
      in report_loop \<lparr> totals = add_item (totals acc) item, daily = daily acc @ [item] \<rparr> rows)"

text \<open>
  The branch of \<^verbatim>\<open>/company/:slug\<close>, from the decoded, trimmed slug on. The reads
  of the store are taken to succeed.
\<close>

definition fetch_company :: "D1Database \<Rightarrow> range' \<Rightarrow> string \<Rightarrow> Response" where
  "fetch_company db rng s =
     (if s = [] then jsonResponse (ErrorBody ''Invalid company slug'') (Some 400)
      else case first_company db s of
        None \<Rightarrow> jsonResponse (ErrorBody ''Company not found'') (Some 404)
      | Some companyRow \<Rightarrow>
          (let rows = stats_query db (id' companyRow) (range_from rng) (range_to rng);
               stats = report_loop \<lparr> totals = emptyTotals, daily = [] \<rparr> rows
           in jsonResponse
                (ReportBody \<lparr> company = companyRow, report_range = rng, last_30_days = stats \<rparr>)
                None))"

subsection \<open>The summary (lines 374-453)\<close>

text \<open>A row of the summary statement: the columns of the company and the eight sums.\<close>

record summary_row = CompanyMeta +
  sum_views_profile :: "int option"
  sum_impressions_search :: "int option"
  sum_impressions_map :: "int option"
  sum_clicks_phone :: "int option"
  sum_clicks_site :: "int option"
  sum_clicks_email :: "int option"
  sum_clicks_directions :: "int option"
  sum_leads_form :: "int option"

text \<open>\<^verbatim>\<open>SUM\<close> skips NULL and is NULL when nothing is left; \<^verbatim>\<open>COALESCE(x, 0)\<close>.\<close>

definition sql_SUM :: "(stats_row \<Rightarrow> int option) \<Rightarrow> stats_row list \<Rightarrow> int option" where
  "sql_SUM col rows = (case List.map_filter col rows of [] \<Rightarrow> None | vs \<Rightarrow> Some (sum_list vs))"

definition COALESCE0 :: "int option \<Rightarrow> int option" where
  "COALESCE0 v = (case v of None \<Rightarrow> Some 0 | Some n \<Rightarrow> Some n)"

text \<open>
  The rows that \<^verbatim>\<open>LEFT JOIN ... ON s.company_id = c.id AND s.date >= ? AND s.date <= ?\<close>
  pairs with the rows of \<^verbatim>\<open>companies\<close> that fall in the group \<open>g\<close> (all eight
  columns of the company are grouped by).
\<close>

definition group_rows :: "D1Database \<Rightarrow> string \<Rightarrow> string \<Rightarrow> CompanyMeta \<Rightarrow> stats_row list" where
  "group_rows db fromStr toStr g =
     concat (map (\<lambda>c. filter (in_range (JNum (id' c)) fromStr toStr) (company_daily_stats db))
               (filter (\<lambda>c. c = g) (companies db)))"

definition group_row :: "D1Database \<Rightarrow> string \<Rightarrow> string \<Rightarrow> CompanyMeta \<Rightarrow> summary_row" where
  "group_row db fromStr toStr g =
     (let rows = group_rows db fromStr toStr g in
      CompanyMeta.extend g
        (summary_row.fields
           (COALESCE0 (sql_SUM col_views_profile rows))
           (COALESCE0 (sql_SUM col_impressions_search rows))
           (COALESCE0 (sql_SUM col_impressions_map rows))
           (COALESCE0 (sql_SUM col_clicks_phone rows))
           (COALESCE0 (sql_SUM col_clicks_site rows))
           (COALESCE0 (sql_SUM col_clicks_email rows))
           (COALESCE0 (sql_SUM col_clicks_directions rows))
           (COALESCE0 (sql_SUM col_leads_form rows))))"

text \<open>
  \<^verbatim>\<open>GROUP BY\<close> the columns of the company, \<^verbatim>\<open>ORDER BY views_profile DESC\<close>. The
  order among equal keys is the engine's; here the groups keep the order of
  \<^verbatim>\<open>companies\<close>.
\<close>

definition summary_query :: "D1Database \<Rightarrow> string \<Rightarrow> string \<Rightarrow> summary_row list" where
  "summary_query db fromStr toStr =
     sort_key (\<lambda>r. - number_or_0 (sum_views_profile r))
       (map (group_row db fromStr toStr) (remdups (companies db)))"

text \<open>The mapping of lines 419-441.\<close>

definition summary_item :: "summary_row \<Rightarrow> SummaryItem" where
  "summary_item row =
     \<lparr> item_company =
         \<lparr> id' = id' row, slug = slug row, name = name row,
           city_name = city_name row, city_slug = city_slug row,
           country_code = country_code row,
           primary_category_slug = primary_category_slug row,
           plan_type = plan_type row \<rparr>,
       item_totals =
         \<lparr> views_profile = number_or_0 (sum_views_profile row),
           impressions_search = number_or_0 (sum_impressions_search row),
           impressions_map = number_or_0 (sum_impressions_map row),
           clicks_phone = number_or_0 (sum_clicks_phone row),
           clicks_site = number_or_0 (sum_clicks_site row),
           clicks_email = number_or_0 (sum_clicks_email row),
           clicks_directions = number_or_0 (sum_clicks_directions row),
           leads_form = number_or_0 (sum_leads_form row) \<rparr> \<rparr>"

definition fetch_summary :: "D1Database \<Rightarrow> range' \<Rightarrow> Response" where
  "fetch_summary db rng =
     (let rows = summary_query db (range_from rng) (range_to rng)
      in jsonResponse
           (SummaryBody \<lparr> summary_range = rng, items = map summary_item rows \<rparr>) None)"

subsection \<open>The GET requests as a whole (lines 207-457)\<close>

text \<open>
  The normalised path of a request: \<^verbatim>\<open>/company/\<close> followed by the rest of the path,
  \<^verbatim>\<open>/summary\<close>, or anything else. \<open>decode\<close> stands for
  \<^verbatim>\<open>decodeURIComponent\<close> applied to the trimmed rest: the slug, or the URIError of a
  malformed escape. The range is computed before the path is looked at; nothing of
  this is inside a \<^verbatim>\<open>try\<close>.
\<close>

datatype route = CompanyRoute string | SummaryRoute | OtherRoute

definition fetch_get ::
  "(string \<Rightarrow> js_error + string) \<Rightarrow> D1Database \<Rightarrow> int \<Rightarrow> route \<Rightarrow> jsnum option
     \<Rightarrow> js_error + Response" where
  "fetch_get decode db now r q =
     (case fetch_range now q of
        Inl err \<Rightarrow> Inl err
      | Inr rng \<Rightarrow>
          (case r of
             CompanyRoute rest \<Rightarrow>
               (case decode rest of
                  Inl err \<Rightarrow> Inl err
                | Inr s \<Rightarrow> Inr (fetch_company db rng s))
           | SummaryRoute \<Rightarrow> Inr (fetch_summary db rng)
           | OtherRoute \<Rightarrow> Inr (jsonResponse (ErrorBody ''Not found'') (Some 404))))"

section \<open>Notions the properties are stated with\<close>

text \<open>
  An event passes the check of line 37 when both fields are truthy; its day is the
  first ten characters of \<^verbatim>\<open>createdAt\<close>, its key the string of line 43.
\<close>

definition passes :: "QueueEvent \<Rightarrow> bool" where
  "passes e = (truthy (companyId e) \<and> truthy (createdAt e))"

definition day_of :: "QueueEvent \<Rightarrow> string" where
  "day_of e = (case createdAt e of JStr s \<Rightarrow> take 10 s | _ \<Rightarrow> [])"

definition key_of :: "QueueEvent \<Rightarrow> string" where
  "key_of e = ToString (companyId e) @ '':'' @ day_of e"

fun is_string :: "jsval \<Rightarrow> bool" where
  "is_string (JStr s) = True"
| "is_string v = False"

text \<open>An event on which line 42 does not throw: \<^verbatim>\<open>createdAt\<close>, where it is read, is a string.\<close>

definition well_typed :: "QueueEvent \<Rightarrow> bool" where
  "well_typed e = (passes e \<longrightarrow> is_string (createdAt e))"

text \<open>The eight event types of the \<^verbatim>\<open>switch\<close>, and the eight counters in the same order.\<close>

definition EventType_names :: "string list" where
  "EventType_names =
     [''PROFILE_VIEW'', ''SEARCH_IMPRESSION'', ''MAP_IMPRESSION'', ''CLICK_PHONE'',
      ''CLICK_SITE'', ''CLICK_EMAIL'', ''CLICK_DIRECTIONS'', ''FORM_SUBMIT'']"

definition recognized :: "jsval \<Rightarrow> bool" where
  "recognized t = (t \<in> JStr ` set EventType_names)"

definition counters :: "'a CompanyReportTotals_scheme \<Rightarrow> int list" where
  "counters a =
     [views_profile a, impressions_search a, impressions_map a, clicks_phone a,
      clicks_site a, clicks_email a, clicks_directions a, leads_form a]"


text \<open>The body of the loop on an event that is well typed.\<close>

definition fold_event :: "aggregates \<Rightarrow> QueueEvent \<Rightarrow> aggregates" where
  "fold_event aggs e =
     (if passes e then
        AList.map_entry (key_of e) (bump (etype e))
          (if map_of aggs (key_of e) = None
           then AList.update (key_of e) (new_aggregate (companyId e) (day_of e)) aggs
           else aggs)
      else aggs)"

text \<open>
  The delta that the events of one key amount to, in the words of the specification:
  none when there is no such event, else each counter the number of events of its type,
  with the identifier and the day of the first event.
\<close>

definition matching :: "string \<Rightarrow> message list \<Rightarrow> message list" where
  "matching k msgs = filter (\<lambda>m. passes (body m) \<and> key_of (body m) = k) msgs"

definition count_type :: "string \<Rightarrow> message list \<Rightarrow> int" where
  "count_type t msgs = int (length (filter (\<lambda>m. etype (body m) = JStr t) msgs))"

definition delta_of :: "message list \<Rightarrow> aggregate option" where
  "delta_of ms =
     (case ms of
        [] \<Rightarrow> None
      | m # _ \<Rightarrow>
          Some \<lparr> views_profile = count_type ''PROFILE_VIEW'' ms,
                 impressions_search = count_type ''SEARCH_IMPRESSION'' ms,
                 impressions_map = count_type ''MAP_IMPRESSION'' ms,
                 clicks_phone = count_type ''CLICK_PHONE'' ms,
                 clicks_site = count_type ''CLICK_SITE'' ms,
                 clicks_email = count_type ''CLICK_EMAIL'' ms,
                 clicks_directions = count_type ''CLICK_DIRECTIONS'' ms,
                 leads_form = count_type ''FORM_SUBMIT'' ms,
                 agg_companyId = companyId (body m), agg_date = day_of (body m) \<rparr>)"

text \<open>Every statement of a sequence succeeds, each run on the store the one before it left.\<close>

fun all_upserts_succeed :: "(aggregate \<Rightarrow> 'db \<Rightarrow> js_error + 'db) \<Rightarrow> aggregate list \<Rightarrow> 'db \<Rightarrow> bool" where
  "all_upserts_succeed run [] db = True"
| "all_upserts_succeed run (d # ds) db =
     (case run d db of Inl err \<Rightarrow> False | Inr db' \<Rightarrow> all_upserts_succeed run ds db')"

text \<open>The columns \<^verbatim>\<open>(company_id, date)\<close> that a delta is written under.\<close>

definition key_pair :: "aggregate \<Rightarrow> jsval \<times> string" where
  "key_pair d = (agg_companyId d, agg_date d)"

text \<open>Concrete inputs: a message of a given identity, identifier, type and timestamp.\<close>

definition mk_message :: "nat \<Rightarrow> jsval \<Rightarrow> jsval \<Rightarrow> jsval \<Rightarrow> message" where
  "mk_message n cid t ts =
     \<lparr> msg_id = n, body = \<lparr> companyId = cid, etype = t, createdAt = ts, meta = JUndefined \<rparr> \<rparr>"



text \<open>
  Concrete inputs: a company of a given identifier, slug and name, and a stored row of a
  company and a day with a given count of profile views (one column NULL, the others 0).
\<close>

definition mk_company :: "int \<Rightarrow> string \<Rightarrow> string \<Rightarrow> CompanyMeta" where
  "mk_company i s n =
     \<lparr> id' = i, slug = s, name = n, city_name = None, city_slug = None,
       country_code = None, primary_category_slug = None, plan_type = None \<rparr>"


text \<open>An empty store, and a store that refuses every write for one given day.\<close>

definition empty_db :: D1Database where
  "empty_db = \<lparr> companies = [], company_daily_stats = [] \<rparr>"

definition failing_run :: "string \<Rightarrow> aggregate \<Rightarrow> D1Database \<Rightarrow> js_error + D1Database" where
  "failing_run d agg db = (if agg_date agg = d then Inl (D1Error ''D1_ERROR'') else d1_run agg db)"

section \<open>The aggregation loop, event by event\<close>

lemma is_string_iff: "is_string v \<longleftrightarrow> (\<exists>s. v = JStr s)"
  by (cases v) simp_all

lemma step_well_typed: "well_typed e \<Longrightarrow> step aggs e = Inr (fold_event aggs e)"
  by (auto simp: step_def fold_event_def well_typed_def is_string_iff passes_def day_of_def key_of_def Let_def
           split: jsval.splits)

lemma step_ill_typed: "\<not> well_typed e \<Longrightarrow> step aggs e = Inl TypeError"
  by (auto simp: step_def well_typed_def is_string_iff passes_def split: jsval.splits)

lemma map_of_fold_event:
  "map_of (fold_event aggs e) =
     (if passes e
      then (map_of aggs)(key_of e \<mapsto> bump (etype e)
              (case map_of aggs (key_of e) of
                 None \<Rightarrow> new_aggregate (companyId e) (day_of e)
               | Some a \<Rightarrow> a))
      else map_of aggs)"
  by (auto simp: fold_event_def AList.map_of_map_entry AList.update_conv' fun_eq_iff)

lemma keys_map_entry: "map fst (AList.map_entry k f xs) = map fst xs"
  by (induction xs) auto

lemma keys_fold_event:
  "map fst (fold_event aggs e) =
     (if passes e \<and> key_of e \<notin> fst ` set aggs then map fst aggs @ [key_of e] else map fst aggs)"
  by (auto simp: fold_event_def keys_map_entry AList.update_keys map_of_eq_None_iff)


lemma aggregate_loop_well_typed:
  "\<forall>m\<in>set msgs. well_typed (body m) \<Longrightarrow>
   aggregate_loop aggs msgs = Inr (foldl fold_event aggs (map body msgs))"
  by (induction msgs arbitrary: aggs) (simp_all add: step_well_typed)

lemma aggregate_loop_append:
  "aggregate_loop aggs (xs @ ys) =
     (case aggregate_loop aggs xs of Inl err \<Rightarrow> Inl err | Inr aggs' \<Rightarrow> aggregate_loop aggs' ys)"
  by (induction xs arbitrary: aggs) (simp_all split: sum.splits)

lemma bump_fields:
  "views_profile (bump t a) = views_profile a + (if t = JStr ''PROFILE_VIEW'' then 1 else 0)"
  "impressions_search (bump t a) = impressions_search a + (if t = JStr ''SEARCH_IMPRESSION'' then 1 else 0)"
  "impressions_map (bump t a) = impressions_map a + (if t = JStr ''MAP_IMPRESSION'' then 1 else 0)"
  "clicks_phone (bump t a) = clicks_phone a + (if t = JStr ''CLICK_PHONE'' then 1 else 0)"
  "clicks_site (bump t a) = clicks_site a + (if t = JStr ''CLICK_SITE'' then 1 else 0)"
  "clicks_email (bump t a) = clicks_email a + (if t = JStr ''CLICK_EMAIL'' then 1 else 0)"
  "clicks_directions (bump t a) = clicks_directions a + (if t = JStr ''CLICK_DIRECTIONS'' then 1 else 0)"
  "leads_form (bump t a) = leads_form a + (if t = JStr ''FORM_SUBMIT'' then 1 else 0)"
  "agg_companyId (bump t a) = agg_companyId a"
  "agg_date (bump t a) = agg_date a"
  by (simp_all add: bump_def)

lemma aggregate_eqI:
  fixes a b :: aggregate
  assumes "views_profile a = views_profile b" "impressions_search a = impressions_search b"
    "impressions_map a = impressions_map b" "clicks_phone a = clicks_phone b"
    "clicks_site a = clicks_site b" "clicks_email a = clicks_email b"
    "clicks_directions a = clicks_directions b" "leads_form a = leads_form b"
    "agg_companyId a = agg_companyId b" "agg_date a = agg_date b"
  shows "a = b"
  using assms by simp




lemma delta_of_snoc:
  "delta_of (ms @ [m]) =
     Some (bump (etype (body m))
       (case delta_of ms of
          None \<Rightarrow> new_aggregate (companyId (body m)) (day_of (body m))
        | Some a \<Rightarrow> a))"
proof (cases ms)
  case Nil
  show ?thesis unfolding Nil
    by (simp add: delta_of_def, rule aggregate_eqI)
       (simp_all add: bump_fields new_aggregate_def count_type_def)
next
  case (Cons x xs)
  show ?thesis unfolding Cons
    by (simp add: delta_of_def, rule aggregate_eqI)
       (simp_all add: bump_fields count_type_def)
qed

lemma counters_delta_of:
  "delta_of ms = Some a \<Longrightarrow> counters a = map (\<lambda>t. count_type t ms) EventType_names"
  by (cases ms) (auto simp: delta_of_def counters_def EventType_names_def)

lemma ids_delta_of:
  "delta_of (m # ms) = Some a \<Longrightarrow> agg_companyId a = companyId (body m) \<and> agg_date a = day_of (body m)"
  by (auto simp: delta_of_def)

text \<open>The mapping that the loop builds is, key by key, the delta of the specification.\<close>

lemma map_of_aggregate:
  "map_of (foldl fold_event [] (map body msgs)) k = delta_of (matching k msgs)"
proof (induction msgs rule: rev_induct)
  case Nil
  show ?case by (simp add: matching_def delta_of_def)
next
  case (snoc m msgs)
  show ?case
  proof (cases "passes (body m) \<and> key_of (body m) = k")
    case True
    then have "matching k (msgs @ [m]) = matching k msgs @ [m]"
      by (simp add: matching_def)
    with True snoc show ?thesis
      by (simp add: map_of_fold_event delta_of_snoc)
  next
    case False
    then have "matching k (msgs @ [m]) = matching k msgs"
      by (auto simp: matching_def)
    with False snoc show ?thesis
      by (auto simp: map_of_fold_event)
  qed
qed

lemma keys_aggregate:
  "set (map fst (foldl fold_event [] (map body msgs))) =
     key_of ` body ` {m \<in> set msgs. passes (body m)}"
  by (induction msgs rule: rev_induct) (auto simp: keys_fold_event)

lemma distinct_keys_fold_event:
  "distinct (map fst aggs) \<Longrightarrow> distinct (map fst (fold_event aggs e))"
  by (auto simp: keys_fold_event)

lemma distinct_keys_aggregate: "distinct (map fst (foldl fold_event [] (map body msgs)))"
  by (induction msgs rule: rev_induct) (simp_all add: distinct_keys_fold_event)

lemma entry_of_aggregate:
  assumes "(k, a) \<in> set (foldl fold_event [] (map body msgs))"
  shows "delta_of (matching k msgs) = Some a"
proof -
  from assms distinct_keys_aggregate [of msgs]
  have "map_of (foldl fold_event [] (map body msgs)) k = Some a"
    by simp
  then show ?thesis
    by (simp only: map_of_aggregate)
qed

lemma matching_Cons_first:
  "matching k msgs = m # ms \<Longrightarrow> passes (body m) \<and> key_of (body m) = k"
proof -
  assume "matching k msgs = m # ms"
  then have "m \<in> set (matching k msgs)" by simp
  then show ?thesis by (simp add: matching_def)
qed

lemma entry_key:
  fixes msgs :: "message list"
  assumes "(k, a) \<in> set (foldl fold_event [] (map body msgs))"
  shows "k = ToString (agg_companyId a) @ '':'' @ agg_date a"
proof -
  from entry_of_aggregate [OF assms] have d: "delta_of (matching k msgs) = Some a" .
  then obtain m ms where mm: "matching k msgs = m # ms"
    by (cases "matching k msgs") (auto simp: delta_of_def)
  from d mm ids_delta_of [of m ms a]
  have "agg_companyId a = companyId (body m)" "agg_date a = day_of (body m)"
    by simp_all
  with matching_Cons_first [OF mm] show ?thesis
    by (simp add: key_of_def)
qed

section \<open>The writes of a batch\<close>

lemma write_all_succeed:
  "all_upserts_succeed run ds db \<longleftrightarrow> snd (write_all run ds db) = None"
  by (induction ds arbitrary: db) (auto split: sum.splits)

lemma write_all_failure:
  "write_all run ds db = (db', Some err) \<Longrightarrow>
   \<exists>pre d post. ds = pre @ d # post \<and> write_all run pre db = (db', None) \<and> run d db' = Inl err"
proof (induction ds arbitrary: db)
  case Nil
  then show ?case by simp
next
  case (Cons a ds)
  show ?case
  proof (cases "run a db")
    case (Inl e)
    with Cons.prems have "db' = db" "e = err" by auto
    with Inl have "a # ds = [] @ a # ds \<and> write_all run [] db = (db', None) \<and> run a db' = Inl err"
      by simp
    then show ?thesis by blast
  next
    case (Inr db1)
    with Cons.prems have "write_all run ds db1 = (db', Some err)" by simp
    from Cons.IH [OF this] obtain pre d post where
      *: "ds = pre @ d # post" "write_all run pre db1 = (db', None)" "run d db' = Inl err"
      by blast
    from * Inr have "a # ds = (a # pre) @ d # post \<and> write_all run (a # pre) db = (db', None) \<and> run d db' = Inl err"
      by simp
    then show ?thesis by blast
  qed
qed

lemma queue_unfold:
  "aggregate_batch (batch_messages b) = Inr aggs \<Longrightarrow>
   queue run b db =
     (case write_all run (map snd aggs) db of
        (db', None) \<Rightarrow> \<lparr> store = db', acked = batch_messages b, thrown = None \<rparr>
      | (db', Some err) \<Rightarrow> \<lparr> store = db', acked = [], thrown = Some err \<rparr>)"
  by (simp add: queue_def Let_def)



lemma write_all_log_run: "write_all log_run ds seen = (seen @ ds, None)"
  by (induction ds arbitrary: seen) (simp_all add: log_run_def)

lemma conflicts_excluded: "conflicts d (excluded d') \<longleftrightarrow> key_pair d' = key_pair d"
  by (auto simp: conflicts_def excluded_def key_pair_def)

lemma write_all_d1_fresh:
  assumes "distinct (map key_pair ds)"
    and "\<forall>d\<in>set ds. \<not> list_ex (conflicts d) (company_daily_stats db)"
  shows "write_all d1_run ds db =
           (db\<lparr>company_daily_stats := company_daily_stats db @ map excluded ds\<rparr>, None)"
  using assms
proof (induction ds arbitrary: db)
  case Nil
  show ?case by simp
next
  case (Cons d ds)
  let ?db = "db\<lparr>company_daily_stats := company_daily_stats db @ [excluded d]\<rparr>"
  from Cons.prems(2) have run: "d1_run d db = Inr ?db"
    by (simp add: d1_run_def upsert_def)
  have "\<forall>d'\<in>set ds. \<not> list_ex (conflicts d') (company_daily_stats ?db)"
  proof
    fix d' assume d': "d' \<in> set ds"
    with Cons.prems(1) have "key_pair d \<noteq> key_pair d'"
      by auto
    with d' Cons.prems(2) show "\<not> list_ex (conflicts d') (company_daily_stats ?db)"
      by (simp add: list_ex_iff conflicts_excluded)
  qed
  with Cons.prems(1) have "write_all d1_run ds ?db =
      (?db\<lparr>company_daily_stats := company_daily_stats ?db @ map excluded ds\<rparr>, None)"
    by (intro Cons.IH) simp_all
  with run show ?case by simp
qed

text \<open>The statement adds to a row that is there: two writes of one view leave two views.\<close>

lemma upsert_twice_example:
  "company_daily_stats
     (upsert ((new_aggregate (JNum 7) ''2024-05-01'')\<lparr>views_profile := 1\<rparr>)
        (upsert ((new_aggregate (JNum 7) ''2024-05-01'')\<lparr>views_profile := 1\<rparr>) empty_db))
   = [excluded ((new_aggregate (JNum 7) ''2024-05-01'')\<lparr>views_profile := 2\<rparr>)]"
  by (simp add: upsert_def empty_db_def conflicts_def excluded_def do_update_def new_aggregate_def)

section \<open>The key of a numeric identifier\<close>

lemma digit_char_range: "d < 10 \<Longrightarrow> digit_char d \<in> set ''0123456789''"
  unfolding digit_char_def by (rule nth_mem) simp

lemma digits_chars: "set (digits n) \<subseteq> set ''0123456789''"
proof (induction n rule: digits.induct)
  case (1 n)
  show ?case
  proof (cases "n < 10")
    case True
    then show ?thesis
      using digit_char_range [of n] by (subst digits.simps) simp
  next
    case False
    with 1 have "set (digits (n div 10)) \<subseteq> set ''0123456789''" by simp
    moreover have "digit_char (n mod 10) \<in> set ''0123456789''"
      by (rule digit_char_range) simp
    ultimately show ?thesis
      using False by (subst digits.simps) simp
  qed
qed

lemma digits_nonempty: "digits n \<noteq> []"
  by (subst digits.simps) simp

lemma digit_char_inj: "a < 10 \<Longrightarrow> b < 10 \<Longrightarrow> digit_char a = digit_char b \<Longrightarrow> a = b"
proof -
  assume "a < 10" "b < 10" "digit_char a = digit_char b"
  moreover have "distinct ''0123456789''" by simp
  ultimately show "a = b"
    unfolding digit_char_def by (simp add: nth_eq_iff_index_eq)
qed

lemma digits_inj: "digits n = digits m \<Longrightarrow> n = m"
proof (induction n arbitrary: m rule: digits.induct)
  case (1 n)
  show ?case
  proof (cases "n < 10")
    case n: True
    show ?thesis
    proof (cases "m < 10")
      case True
      with n "1.prems" show ?thesis
        by (simp add: digits.simps [of n] digits.simps [of m] digit_char_inj)
    next
      case False
      with n "1.prems" digits_nonempty [of "m div 10"] show ?thesis
        by (simp add: digits.simps [of n] digits.simps [of m])
    qed
  next
    case n: False
    show ?thesis
    proof (cases "m < 10")
      case True
      with n "1.prems" digits_nonempty [of "n div 10"] show ?thesis
        by (simp add: digits.simps [of n] digits.simps [of m])
    next
      case False
      with n "1.prems" have eq: "digits (n div 10) = digits (m div 10)"
        "digit_char (n mod 10) = digit_char (m mod 10)"
        by (simp_all add: digits.simps [of n] digits.simps [of m])
      from "1.IH" [OF n eq(1)] have "n div 10 = m div 10" .
      moreover from eq(2) have "n mod 10 = m mod 10"
        by (intro digit_char_inj) simp_all
      ultimately show ?thesis
        by (metis div_mult_mod_eq)
    qed
  qed
qed

lemma int_to_string_inj: "int_to_string a = int_to_string b \<Longrightarrow> a = b"
proof -
  assume eq: "int_to_string a = int_to_string b"
  have nodash: "\<And>n. hd (digits n) \<noteq> CHR ''-''"
  proof -
    fix n
    have "hd (digits n) \<in> set (digits n)" by (simp add: digits_nonempty)
    with digits_chars [of n] show "hd (digits n) \<noteq> CHR ''-''" by auto
  qed
  show "a = b"
  proof (cases "a < 0"; cases "b < 0")
    assume "a < 0" "b < 0"
    with eq have "nat (- a) = nat (- b)"
      by (simp add: int_to_string_def digits_inj)
    with \<open>a < 0\<close> \<open>b < 0\<close> show ?thesis by simp
  next
    assume "a < 0" "\<not> b < 0"
    with eq have "digits (nat b) = CHR ''-'' # digits (nat (- a))"
      by (simp add: int_to_string_def)
    then have "hd (digits (nat b)) = CHR ''-''"
      by simp
    with nodash show ?thesis
      by blast
  next
    assume "\<not> a < 0" "b < 0"
    with eq have "digits (nat a) = CHR ''-'' # digits (nat (- b))"
      by (simp add: int_to_string_def)
    then have "hd (digits (nat a)) = CHR ''-''"
      by simp
    with nodash show ?thesis
      by blast
  next
    assume "\<not> a < 0" "\<not> b < 0"
    with eq have "nat a = nat b"
      by (simp add: int_to_string_def digits_inj)
    with \<open>\<not> a < 0\<close> \<open>\<not> b < 0\<close> show ?thesis by simp
  qed
qed

lemma int_to_string_no_colon: "CHR '':'' \<notin> set (int_to_string a)"
  using digits_chars by (auto simp: int_to_string_def)

lemma colon_split:
  assumes "CHR '':'' \<notin> set a" "CHR '':'' \<notin> set b" "a @ '':'' @ x = b @ '':'' @ y"
  shows "a = b \<and> x = y"
  using assms
proof (induction a arbitrary: b)
  case Nil
  then show ?case by (cases b) auto
next
  case (Cons c a)
  then show ?case by (cases b) auto
qed

text \<open>For numeric identifiers the string key determines the identifier and the day.\<close>

lemma key_inj:
  "ToString (JNum a) @ '':'' @ x = ToString (JNum b) @ '':'' @ y \<longleftrightarrow> a = b \<and> x = y"
  using colon_split [OF int_to_string_no_colon int_to_string_no_colon, of a x b y]
    int_to_string_inj [of a b]
  by auto

section \<open>C1: N events of one key and one type\<close>






section \<open>C2: acknowledging all or nothing\<close>

text \<open>
  Claim C2. When the aggregator has produced its mapping, the call acknowledges every
  message of the batch, and throws nothing, exactly when every upsert of the deltas
  succeeded. When an upsert fails, no message is acknowledged, the writes before the
  failing one stay in the store, and the error of the failing write is what the call
  throws to the transport.
\<close>

theorem ack_all_or_nothing:
  assumes agg: "aggregate_batch (batch_messages b) = Inr aggs"
  shows "((acked (queue run b db) = batch_messages b \<and> thrown (queue run b db) = None)
            \<longleftrightarrow> all_upserts_succeed run (map snd aggs) db)
       \<and> (\<not> all_upserts_succeed run (map snd aggs) db \<longrightarrow>
            acked (queue run b db) = [] \<and>
            (\<exists>pre d post err. map snd aggs = pre @ d # post
               \<and> write_all run pre db = (store (queue run b db), None)
               \<and> run d (store (queue run b db)) = Inl err
               \<and> thrown (queue run b db) = Some err))"
proof (cases "write_all run (map snd aggs) db")
  case (Pair db' res)
  show ?thesis
  proof (cases res)
    case None
    with Pair agg have q: "queue run b db = \<lparr> store = db', acked = batch_messages b, thrown = None \<rparr>"
      by (simp add: queue_def)
    from Pair None have "all_upserts_succeed run (map snd aggs) db"
      by (simp add: write_all_succeed)
    with q show ?thesis by simp
  next
    case (Some err)
    with Pair agg have q: "queue run b db = \<lparr> store = db', acked = [], thrown = Some err \<rparr>"
      by (simp add: queue_def)
    from Pair Some have no: "\<not> all_upserts_succeed run (map snd aggs) db"
      by (simp add: write_all_succeed)
    from Pair Some write_all_failure [of run "map snd aggs" db db' err]
    obtain pre d post where "map snd aggs = pre @ d # post"
      "write_all run pre db = (db', None)" "run d db' = Inl err"
      by blast
    with q no show ?thesis by auto
  qed
qed

theorem ack_all_or_nothing_witness:
  "\<not> all_upserts_succeed (failing_run ''2024-05-02'')
       [(new_aggregate (JNum 7) ''2024-05-01'')\<lparr>views_profile := 1\<rparr>,
        (new_aggregate (JNum 7) ''2024-05-02'')\<lparr>clicks_site := 1\<rparr>,
        (new_aggregate (JNum 7) ''2024-05-03'')\<lparr>leads_form := 1\<rparr>] empty_db
   \<and> acked (queue (failing_run ''2024-05-02'')
        (Some [mk_message 10 (JNum 7) (JStr ''PROFILE_VIEW'') (JStr ''2024-05-01T08:00:00.000Z''),
               mk_message 11 (JNum 7) (JStr ''CLICK_SITE'') (JStr ''2024-05-02T08:00:00.000Z''),
               mk_message 12 (JNum 7) (JStr ''FORM_SUBMIT'') (JStr ''2024-05-03T08:00:00.000Z'')])
        empty_db) = []
   \<and> thrown (queue (failing_run ''2024-05-02'')
        (Some [mk_message 10 (JNum 7) (JStr ''PROFILE_VIEW'') (JStr ''2024-05-01T08:00:00.000Z''),
               mk_message 11 (JNum 7) (JStr ''CLICK_SITE'') (JStr ''2024-05-02T08:00:00.000Z''),
               mk_message 12 (JNum 7) (JStr ''FORM_SUBMIT'') (JStr ''2024-05-03T08:00:00.000Z'')])
        empty_db) = Some (D1Error ''D1_ERROR'')
   \<and> map col_date (company_daily_stats (store (queue (failing_run ''2024-05-02'')
        (Some [mk_message 10 (JNum 7) (JStr ''PROFILE_VIEW'') (JStr ''2024-05-01T08:00:00.000Z''),
               mk_message 11 (JNum 7) (JStr ''CLICK_SITE'') (JStr ''2024-05-02T08:00:00.000Z''),
               mk_message 12 (JNum 7) (JStr ''FORM_SUBMIT'') (JStr ''2024-05-03T08:00:00.000Z'')])
        empty_db))) = [''2024-05-01'']"
proof -
  let ?msgs = "[mk_message 10 (JNum 7) (JStr ''PROFILE_VIEW'') (JStr ''2024-05-01T08:00:00.000Z''),
               mk_message 11 (JNum 7) (JStr ''CLICK_SITE'') (JStr ''2024-05-02T08:00:00.000Z''),
               mk_message 12 (JNum 7) (JStr ''FORM_SUBMIT'') (JStr ''2024-05-03T08:00:00.000Z'')]"
  let ?aggs = "[(''7:2024-05-01'', (new_aggregate (JNum 7) ''2024-05-01'')\<lparr>views_profile := 1\<rparr>),
          (''7:2024-05-02'', (new_aggregate (JNum 7) ''2024-05-02'')\<lparr>clicks_site := 1\<rparr>),
          (''7:2024-05-03'', (new_aggregate (JNum 7) ''2024-05-03'')\<lparr>leads_form := 1\<rparr>)]"
  let ?q = "queue (failing_run ''2024-05-02'') (Some ?msgs) empty_db"
  have agg: "aggregate_batch (batch_messages (Some ?msgs)) = Inr ?aggs"
    by (simp add: batch_messages_def aggregate_batch_def mk_message_def step_def Let_def
          new_aggregate_def bump_def int_to_string_def digits.simps digit_char_def)
  have fails: "\<not> all_upserts_succeed (failing_run ''2024-05-02'') (map snd ?aggs) empty_db"
    by (simp add: failing_run_def d1_run_def new_aggregate_def)
  from ack_all_or_nothing [OF agg, of "failing_run ''2024-05-02''" empty_db] fails
  have none: "acked ?q = []"
    by blast
  have q: "?q = \<lparr> store = upsert ((new_aggregate (JNum 7) ''2024-05-01'')\<lparr>views_profile := 1\<rparr>) empty_db,
                  acked = [], thrown = Some (D1Error ''D1_ERROR'') \<rparr>"
    using queue_unfold [OF agg, of "failing_run ''2024-05-02''" empty_db]
    by (simp add: failing_run_def d1_run_def new_aggregate_def)
  have "thrown ?q = Some (D1Error ''D1_ERROR'')"
    unfolding q by simp
  moreover have "map col_date (company_daily_stats (store ?q)) = [''2024-05-01'']"
    unfolding q by (simp add: upsert_def empty_db_def excluded_def new_aggregate_def)
  ultimately show ?thesis
    using fails none by simp
qed

section \<open>C3: the company report\<close>







section \<open>C4: events that are skipped\<close>







section \<open>C5: the summary\<close>









section \<open>C6: the days parameter and the date range\<close>

text \<open>What is not a positive finite number is read as 30.\<close>

lemma days_default:
  "days_of (daysParam None) = 30"
  "days_of (daysParam (Some NaN)) = 30"
  "days_of (daysParam (Some PosInfinity)) = 30"
  "days_of (daysParam (Some NegInfinity)) = 30"
  "x \<le> 0 \<Longrightarrow> days_of (daysParam (Some (Fin x))) = 30"
  "0 < x \<Longrightarrow> days_of (daysParam (Some (Fin x))) = x"
  by (simp_all add: days_of_def daysParam_def)

lemma TimeClip_int: "\<bar>t\<bar> \<le> 8640000000000000 \<Longrightarrow> TimeClip (of_int t) = Some t"
proof -
  assume "\<bar>t\<bar> \<le> 8640000000000000"
  then have "\<not> \<bar>(of_int t :: rat)\<bar> > 8640000000000000"
    by (metis (mono_tags) not_less of_int_abs of_int_le_iff of_int_numeral)
  then show ?thesis
    by (simp add: TimeClip_def)
qed

text \<open>
  For a whole number of days within the reach of a date, the range ends on the day of
  the clock and starts \<open>n - 1\<close> days before it.
\<close>

lemma fetch_range_whole_days:
  assumes now: "0 \<le> now" "now \<le> 8640000000000000"
    and n: "1 \<le> n" "n \<le> 100000000"
  shows "fetch_range now (Some (Fin (of_int n))) =
           Inr \<lparr> range_from = iso_date ((now div ms_per_day - (n - 1)) * ms_per_day),
                 range_to = iso_date ((now div ms_per_day) * ms_per_day),
                 range_days = of_int n \<rparr>"
proof -
  let ?to = "(now div ms_per_day) * ms_per_day"
  let ?from = "(now div ms_per_day - (n - 1)) * ms_per_day"
  have ms: "ms_per_day = 86400000"
    by (simp add: ms_per_day_def)
  from now have to: "0 \<le> ?to" "?to \<le> now"
    unfolding ms by (simp_all add: pos_imp_zdiv_nonneg_iff)
  with now have t1: "TimeClip (of_int ?to) = Some ?to"
    by (intro TimeClip_int) simp
  have fr: "?from = ?to - (n - 1) * 86400000"
    unfolding ms by (simp add: algebra_simps)
  with n to now have "\<bar>?from\<bar> \<le> 8640000000000000"
    by simp
  then have t2: "TimeClip (of_int ?from) = Some ?from"
    by (rule TimeClip_int)
  have "(of_int ?to :: rat) - (of_int n - 1) * 24 * 60 * 60 * 1000 = of_int ?from"
    unfolding fr by simp
  with t1 t2 n show ?thesis
    by (simp add: fetch_range_def Let_def days_of_def daysParam_def toISOString_slice_def)
qed

lemma fetch_range_default:
  assumes now: "0 \<le> now" "now \<le> 8640000000000000"
    and q: "days_of (daysParam q) = 30"
  shows "fetch_range now q =
           Inr \<lparr> range_from = iso_date ((now div ms_per_day - 29) * ms_per_day),
                 range_to = iso_date ((now div ms_per_day) * ms_per_day),
                 range_days = 30 \<rparr>"
proof -
  have "fetch_range now q = fetch_range now (Some (Fin (of_int 30)))"
    using q by (simp add: fetch_range_def days_of_def daysParam_def)
  also have "\<dots> = Inr \<lparr> range_from = iso_date ((now div ms_per_day - (30 - 1)) * ms_per_day),
                 range_to = iso_date ((now div ms_per_day) * ms_per_day),
                 range_days = of_int 30 \<rparr>"
    using now by (intro fetch_range_whole_days) simp_all
  finally show ?thesis by simp
qed

text \<open>
  On a clock of 2026-11-03: without the parameter the range is the thirty days that end
  today; with \<^verbatim>\<open>?days=1.5\<close> it is yesterday and today, reported as 1.5 days.
\<close>

lemma default_days_example:
  "fetch_range 1793700000000 None =
     Inr \<lparr> range_from = ''2026-10-05'', range_to = ''2026-11-03'', range_days = 30 \<rparr>"
  by code_simp

lemma fractional_days_example:
  "fetch_range 1793700000000 (Some (Fin (3 / 2))) =
     Inr \<lparr> range_from = ''2026-11-02'', range_to = ''2026-11-03'', range_days = 3 / 2 \<rparr>"
  by code_simp

text \<open>
  Claim C6 says that for every value of the parameter a range is built that ends today
  and starts \<open>days - 1\<close> days earlier, and that the parameter never causes an error.
  On \<^verbatim>\<open>?days=1000000000\<close>, a positive finite number that line 216 lets through, the
  start lies beyond the dates that exist: \<^verbatim>\<open>toISOString\<close> throws a RangeError and,
  nothing catching it, the request fails, at any time of the clock, for any path and
  any store.
\<close>

theorem huge_days_range_error:
  assumes now: "0 \<le> now" "now \<le> 8640000000000000"
  shows "fetch_get decode db now r (Some (Fin 1000000000)) = Inl RangeError"
proof -
  let ?to = "(now div ms_per_day) * ms_per_day"
  have ms: "ms_per_day = 86400000"
    by (simp add: ms_per_day_def)
  from now have to: "0 \<le> ?to" "?to \<le> now"
    unfolding ms by (simp_all add: pos_imp_zdiv_nonneg_iff)
  with now have t1: "TimeClip (of_int ?to) = Some ?to"
    by (intro TimeClip_int) simp
  have eq: "(of_int ?to :: rat) - (1000000000 - 1) * 24 * 60 * 60 * 1000
              = of_int (?to - 86399999913600000)"
    by simp
  from to now have "\<bar>?to - 86399999913600000\<bar> > 8640000000000000"
    by simp
  then have "\<bar>(of_int (?to - 86399999913600000) :: rat)\<bar> > 8640000000000000"
    by (metis (mono_tags) of_int_abs of_int_less_iff of_int_numeral)
  then have t2: "TimeClip (of_int ?to - (1000000000 - 1) * 24 * 60 * 60 * 1000) = None"
    unfolding eq by (simp add: TimeClip_def)
  have "fetch_range now (Some (Fin 1000000000)) = Inl RangeError"
    using t1 t2
    by (simp add: fetch_range_def Let_def days_of_def daysParam_def toISOString_slice_def)
  then show ?thesis
    by (simp add: fetch_get_def)
qed

theorem huge_days_range_error_witness:
  "fetch_get (\<lambda>s. Inr s) empty_db 1793700000000 SummaryRoute (Some (Fin 1000000000))
     = Inl RangeError"
  using huge_days_range_error [of 1793700000000 "\<lambda>s. Inr s" empty_db SummaryRoute]
  by simp

section \<open>C7: a slug that names no company\<close>

text \<open>
  Claim C7 says that every slug that matches no entity gets the not-found outcome. The
  empty slug matches no entity and is answered, by the guard of line 243, with the 400
  error of an invalid slug.
\<close>

theorem empty_slug_counterexample:
  "first_company empty_db '''' = None
   \<and> fetch_company empty_db \<lparr> range_from = ''2026-10-05'', range_to = ''2026-11-03'', range_days = 30 \<rparr> ''''
     = \<lparr> status = 400, json = ErrorBody ''Invalid company slug'' \<rparr>"
  by (simp add: first_company_def empty_db_def fetch_company_def jsonResponse_def)

text \<open>
  Claim C7, amended. For a slug that matches no entity, the company report is a
  structured error and never a successful report: the 404 error "Company not found"
  when the slug is not empty, the 400 error "Invalid company slug" when it is. The
  summary is a 200 response with its list of items, whatever the entities are.
\<close>

theorem unknown_slug_not_found:
  assumes "first_company db s = None"
  shows "(s \<noteq> [] \<longrightarrow>
            fetch_company db rng s = \<lparr> status = 404, json = ErrorBody ''Company not found'' \<rparr>)
       \<and> (s = [] \<longrightarrow>
            fetch_company db rng s = \<lparr> status = 400, json = ErrorBody ''Invalid company slug'' \<rparr>)
       \<and> status (fetch_summary db rng) = 200
       \<and> (\<exists>body. json (fetch_summary db rng) = SummaryBody body)"
  using assms by (simp add: fetch_company_def fetch_summary_def jsonResponse_def Let_def)

theorem unknown_slug_not_found_witness:
  "fetch_company \<lparr> companies = [mk_company 1 ''acme'' ''Acme''], company_daily_stats = [] \<rparr>
      \<lparr> range_from = ''2026-10-05'', range_to = ''2026-11-03'', range_days = 30 \<rparr> ''nonexistent-slug''
     = \<lparr> status = 404, json = ErrorBody ''Company not found'' \<rparr>
   \<and> status (fetch_summary \<lparr> companies = [mk_company 1 ''acme'' ''Acme''], company_daily_stats = [] \<rparr>
      \<lparr> range_from = ''2026-10-05'', range_to = ''2026-11-03'', range_days = 30 \<rparr>) = 200"
proof -
  have none: "first_company \<lparr> companies = [mk_company 1 ''acme'' ''Acme''], company_daily_stats = [] \<rparr>
                ''nonexistent-slug'' = None"
    by (simp add: first_company_def mk_company_def)
  have ne: "''nonexistent-slug'' \<noteq> []"
    by simp
  from unknown_slug_not_found [OF none] ne show ?thesis
    by simp
qed

section \<open>C8: the groups do not affect each other\<close>

lemma matching_numeric:
  fixes msgs :: "message list"
  assumes num: "\<forall>m\<in>set msgs. passes (body m) \<longrightarrow> (\<exists>n. companyId (body m) = JNum n)"
  shows "matching (ToString (JNum c) @ '':'' @ d) msgs =
           filter (\<lambda>m. passes (body m))
             (filter (\<lambda>m. companyId (body m) = JNum c \<and> day_of (body m) = d) msgs)"
proof -
  have "(passes (body m) \<and> key_of (body m) = ToString (JNum c) @ '':'' @ d)
          \<longleftrightarrow> ((companyId (body m) = JNum c \<and> day_of (body m) = d) \<and> passes (body m))"
    if "m \<in> set msgs" for m
  proof (cases "passes (body m)")
    case True
    with num that obtain n where "companyId (body m) = JNum n" by blast
    with True show ?thesis
      unfolding key_of_def by (simp only: key_inj) auto
  next
    case False
    then show ?thesis by simp
  qed
  then show ?thesis
    unfolding matching_def filter_filter by (intro filter_cong) auto
qed

text \<open>
  Claim C8. On batches whose events are well typed and whose identifiers are numbers
  (the declared type of \<^verbatim>\<open>companyId\<close>), the delta found under the key of an
  identifier and a day (the first ten characters of \<^verbatim>\<open>createdAt\<close>) is the same
  for any two batches that hold the same events of that identifier and day, in the same
  order: the events of every other pair, whatever they are, do not affect it. (The key
  is a string: were an identifier a string, \<^verbatim>\<open>"7"\<close> and the number 7 would
  share their keys.)
\<close>

theorem cross_group_isolation:
  fixes msgs msgs' :: "message list"
  assumes wt: "\<forall>m\<in>set msgs \<union> set msgs'. well_typed (body m)"
    and num: "\<forall>m\<in>set msgs \<union> set msgs'. passes (body m) \<longrightarrow> (\<exists>n. companyId (body m) = JNum n)"
    and same: "filter (\<lambda>m. companyId (body m) = JNum c \<and> day_of (body m) = d) msgs
             = filter (\<lambda>m. companyId (body m) = JNum c \<and> day_of (body m) = d) msgs'"
  shows "\<exists>aggs aggs'. aggregate_batch msgs = Inr aggs \<and> aggregate_batch msgs' = Inr aggs'
           \<and> map_of aggs (ToString (JNum c) @ '':'' @ d) = map_of aggs' (ToString (JNum c) @ '':'' @ d)"
proof -
  let ?k = "ToString (JNum c) @ '':'' @ d"
  let ?R = "foldl fold_event [] (map body msgs)"
  let ?R' = "foldl fold_event [] (map body msgs')"
  from wt have run: "aggregate_batch msgs = Inr ?R" "aggregate_batch msgs' = Inr ?R'"
    by (simp_all add: aggregate_batch_def aggregate_loop_well_typed)
  from num have "matching ?k msgs = filter (\<lambda>m. passes (body m))
             (filter (\<lambda>m. companyId (body m) = JNum c \<and> day_of (body m) = d) msgs)"
    by (intro matching_numeric) simp
  moreover from num have "matching ?k msgs' = filter (\<lambda>m. passes (body m))
             (filter (\<lambda>m. companyId (body m) = JNum c \<and> day_of (body m) = d) msgs')"
    by (intro matching_numeric) simp
  ultimately have "matching ?k msgs = matching ?k msgs'"
    using same by simp
  then have "map_of ?R ?k = map_of ?R' ?k"
    by (simp only: map_of_aggregate)
  with run show ?thesis by blast
qed

theorem cross_group_isolation_witness:
  "\<exists>aggs aggs'.
      aggregate_batch
        [mk_message 40 (JNum 7) (JStr ''PROFILE_VIEW'') (JStr ''2024-05-01T08:00:00.000Z''),
         mk_message 41 (JNum 8) (JStr ''CLICK_PHONE'') (JStr ''2024-05-01T09:00:00.000Z''),
         mk_message 42 (JNum 7) (JStr ''PROFILE_VIEW'') (JStr ''2024-05-01T10:00:00.000Z''),
         mk_message 43 (JNum 7) (JStr ''FORM_SUBMIT'') (JStr ''2024-05-02T10:00:00.000Z'')] = Inr aggs
    \<and> aggregate_batch
        [mk_message 40 (JNum 7) (JStr ''PROFILE_VIEW'') (JStr ''2024-05-01T08:00:00.000Z''),
         mk_message 42 (JNum 7) (JStr ''PROFILE_VIEW'') (JStr ''2024-05-01T10:00:00.000Z''),
         mk_message 44 (JNum 9) (JStr ''MAP_IMPRESSION'') (JStr ''2024-05-01T11:00:00.000Z'')] = Inr aggs'
    \<and> map_of aggs ''7:2024-05-01'' = map_of aggs' ''7:2024-05-01''
    \<and> map_of aggs' ''7:2024-05-01'' = Some ((new_aggregate (JNum 7) ''2024-05-01'')\<lparr>views_profile := 2\<rparr>)"
proof -
  let ?msgs = "[mk_message 40 (JNum 7) (JStr ''PROFILE_VIEW'') (JStr ''2024-05-01T08:00:00.000Z''),
         mk_message 41 (JNum 8) (JStr ''CLICK_PHONE'') (JStr ''2024-05-01T09:00:00.000Z''),
         mk_message 42 (JNum 7) (JStr ''PROFILE_VIEW'') (JStr ''2024-05-01T10:00:00.000Z''),
         mk_message 43 (JNum 7) (JStr ''FORM_SUBMIT'') (JStr ''2024-05-02T10:00:00.000Z'')]"
  let ?msgs' = "[mk_message 40 (JNum 7) (JStr ''PROFILE_VIEW'') (JStr ''2024-05-01T08:00:00.000Z''),
         mk_message 42 (JNum 7) (JStr ''PROFILE_VIEW'') (JStr ''2024-05-01T10:00:00.000Z''),
         mk_message 44 (JNum 9) (JStr ''MAP_IMPRESSION'') (JStr ''2024-05-01T11:00:00.000Z'')]"
  have wt: "\<forall>m\<in>set ?msgs \<union> set ?msgs'. well_typed (body m)"
    by (simp add: well_typed_def mk_message_def)
  have num: "\<forall>m\<in>set ?msgs \<union> set ?msgs'. passes (body m) \<longrightarrow> (\<exists>n. companyId (body m) = JNum n)"
    by (simp add: mk_message_def)
  have same: "filter (\<lambda>m. companyId (body m) = JNum 7 \<and> day_of (body m) = ''2024-05-01'') ?msgs
            = filter (\<lambda>m. companyId (body m) = JNum 7 \<and> day_of (body m) = ''2024-05-01'') ?msgs'"
    by (simp add: mk_message_def day_of_def)
  have key: "ToString (JNum 7) @ '':'' @ ''2024-05-01'' = ''7:2024-05-01''"
    by (simp add: int_to_string_def digits.simps digit_char_def)
  have ev: "aggregate_batch ?msgs' =
      Inr [(''7:2024-05-01'', (new_aggregate (JNum 7) ''2024-05-01'')\<lparr>views_profile := 2\<rparr>),
           (''9:2024-05-01'', (new_aggregate (JNum 9) ''2024-05-01'')\<lparr>impressions_map := 1\<rparr>)]"
    by (simp add: aggregate_batch_def mk_message_def step_def Let_def new_aggregate_def bump_def
          int_to_string_def digits.simps digit_char_def)
  from cross_group_isolation [OF wt num same] obtain aggs aggs' where
    "aggregate_batch ?msgs = Inr aggs" "aggregate_batch ?msgs' = Inr aggs'"
    "map_of aggs ''7:2024-05-01'' = map_of aggs' ''7:2024-05-01''"
    unfolding key by blast
  moreover from this(2) ev
  have "map_of aggs' ''7:2024-05-01'' = Some ((new_aggregate (JNum 7) ''2024-05-01'')\<lparr>views_profile := 2\<rparr>)"
    by auto
  ultimately show ?thesis by blast
qed

section \<open>C9: deltas of zeros\<close>

lemma count_type_none:
  "\<forall>m\<in>set ms. etype (body m) \<noteq> JStr t \<Longrightarrow> count_type t ms = 0"
  by (simp add: count_type_def filter_empty_conv)

lemma entry_zero:
  fixes msgs :: "message list"
  assumes "(k, a) \<in> set (foldl fold_event [] (map body msgs))"
    and "\<forall>m\<in>set msgs. \<not> recognized (etype (body m))"
  shows "counters a = replicate 8 0"
proof -
  from entry_of_aggregate [OF assms(1)]
  have "counters a = map (\<lambda>t. count_type t (matching k msgs)) EventType_names"
    by (rule counters_delta_of)
  moreover have "count_type t (matching k msgs) = 0" if "t \<in> set EventType_names" for t
  proof (rule count_type_none, rule ballI)
    fix m assume "m \<in> set (matching k msgs)"
    then have "m \<in> set msgs" by (simp add: matching_def)
    with assms(2) have "\<not> recognized (etype (body m))" by blast
    with that show "etype (body m) \<noteq> JStr t"
      by (auto simp: recognized_def)
  qed
  ultimately have "counters a = map (\<lambda>t. 0) EventType_names"
    by simp
  then show ?thesis
    by (simp add: EventType_names_def eval_nat_numeral)
qed

lemma distinct_pairs_aggregate:
  fixes msgs :: "message list"
  shows "distinct (map key_pair (map snd (foldl fold_event [] (map body msgs))))"
proof -
  let ?R = "foldl fold_event [] (map body msgs)"
  have "map fst ?R = map (\<lambda>p. ToString (fst p) @ '':'' @ snd p) (map key_pair (map snd ?R))"
    using entry_key [of _ _ msgs] by (auto simp: key_pair_def)
  with distinct_keys_aggregate [of msgs]
  have "distinct (map (\<lambda>p. ToString (fst p) @ '':'' @ snd p) (map key_pair (map snd ?R)))"
    by simp
  then show ?thesis
    unfolding distinct_map [of "\<lambda>p. ToString (fst p) @ '':'' @ snd p"] by (rule conjunct1)
qed

lemma entry_origin:
  fixes msgs :: "message list"
  assumes "(k, a) \<in> set (foldl fold_event [] (map body msgs))"
  shows "\<exists>m\<in>set msgs. key_of (body m) = k \<and> agg_companyId a = companyId (body m)
           \<and> agg_date a = day_of (body m)"
proof -
  from entry_of_aggregate [OF assms] have d: "delta_of (matching k msgs) = Some a" .
  then obtain m ms where mm: "matching k msgs = m # ms"
    by (cases "matching k msgs") (auto simp: delta_of_def)
  then have "m \<in> set (matching k msgs)"
    by simp
  then have "m \<in> set msgs"
    by (simp add: matching_def)
  moreover from d mm ids_delta_of [of m ms a]
  have "agg_companyId a = companyId (body m)" "agg_date a = day_of (body m)"
    by simp_all
  moreover from matching_Cons_first [OF mm] have "key_of (body m) = k"
    by simp
  ultimately show ?thesis
    by blast
qed

lemma excluded_zero:
  assumes "counters a = replicate 8 0"
  shows "excluded a =
     \<lparr> col_company_id = agg_companyId a, col_date = agg_date a,
       col_views_profile = Some 0, col_impressions_search = Some 0,
       col_impressions_map = Some 0, col_clicks_phone = Some 0,
       col_clicks_site = Some 0, col_clicks_email = Some 0,
       col_clicks_directions = Some 0, col_leads_form = Some 0 \<rparr>"
  using assms by (simp add: excluded_def counters_def eval_nat_numeral)

text \<open>
  Claim C9. For a batch whose events all pass the check of line 37 with a string
  timestamp but carry a type that is none of the eight, the aggregator still returns
  one delta for each distinct key, every one with its eight counters at zero and with
  the identifier and the day of an event of that key; the coordinator runs one upsert
  for each of them (a store that records the statements holds exactly these deltas),
  and on an empty table each leaves a row with that identifier and day and its eight
  counters 0, for an entity and a day that received no recognized event. All messages
  are acknowledged.
\<close>

theorem unrecognized_events_create_zero_rows:
  fixes msgs :: "message list"
  assumes un: "\<forall>m\<in>set msgs. passes (body m) \<and> is_string (createdAt (body m))
                 \<and> \<not> recognized (etype (body m))"
  shows "\<exists>aggs. aggregate_batch msgs = Inr aggs
       \<and> distinct (map fst aggs)
       \<and> set (map fst aggs) = key_of ` body ` set msgs
       \<and> (\<forall>(k, a)\<in>set aggs. counters a = replicate 8 0
             \<and> (\<exists>m\<in>set msgs. key_of (body m) = k \<and> agg_companyId a = companyId (body m)
                    \<and> agg_date a = day_of (body m)))
       \<and> store (queue log_run (Some msgs) []) = map snd aggs
       \<and> company_daily_stats (store (queue d1_run (Some msgs) empty_db)) =
            map (\<lambda>(k, a).
                   \<lparr> col_company_id = agg_companyId a, col_date = agg_date a,
                     col_views_profile = Some 0, col_impressions_search = Some 0,
                     col_impressions_map = Some 0, col_clicks_phone = Some 0,
                     col_clicks_site = Some 0, col_clicks_email = Some 0,
                     col_clicks_directions = Some 0, col_leads_form = Some 0 \<rparr>) aggs
       \<and> acked (queue d1_run (Some msgs) empty_db) = msgs
       \<and> thrown (queue d1_run (Some msgs) empty_db) = None"
proof -
  let ?R = "foldl fold_event [] (map body msgs)"
  let ?row = "\<lambda>(k :: string, a :: aggregate).
                   \<lparr> col_company_id = agg_companyId a, col_date = agg_date a,
                     col_views_profile = Some 0, col_impressions_search = Some 0,
                     col_impressions_map = Some 0, col_clicks_phone = Some 0,
                     col_clicks_site = Some 0, col_clicks_email = Some 0,
                     col_clicks_directions = Some 0, col_leads_form = Some 0 \<rparr>"
  from un have wt: "\<forall>m\<in>set msgs. well_typed (body m)"
    by (simp add: well_typed_def)
  then have run: "aggregate_batch msgs = Inr ?R"
    by (simp add: aggregate_batch_def aggregate_loop_well_typed)
  then have run': "aggregate_batch (batch_messages (Some msgs)) = Inr ?R"
    by (simp add: batch_messages_def)
  from un have "{m \<in> set msgs. passes (body m)} = set msgs"
    by auto
  then have keys: "set (map fst ?R) = key_of ` body ` set msgs"
    by (simp only: keys_aggregate)
  from un have zero: "counters a = replicate 8 0" if "(k, a) \<in> set ?R" for k a
    using entry_zero [OF that] by blast
  have each: "\<forall>(k, a)\<in>set ?R. counters a = replicate 8 0
             \<and> (\<exists>m\<in>set msgs. key_of (body m) = k \<and> agg_companyId a = companyId (body m)
                    \<and> agg_date a = day_of (body m))"
    using zero entry_origin [of _ _ msgs] by blast
  have logged: "store (queue log_run (Some msgs) []) = map snd ?R"
    by (simp add: queue_unfold [OF run'] write_all_log_run)
  have fresh: "\<forall>d\<in>set (map snd ?R). \<not> list_ex (conflicts d) (company_daily_stats empty_db)"
    by (simp add: empty_db_def)
  have "write_all d1_run (map snd ?R) empty_db =
          (empty_db\<lparr>company_daily_stats := company_daily_stats empty_db @ map excluded (map snd ?R)\<rparr>, None)"
    using distinct_pairs_aggregate fresh by (rule write_all_d1_fresh)
  then have written: "queue d1_run (Some msgs) empty_db =
      \<lparr> store = empty_db\<lparr>company_daily_stats := map excluded (map snd ?R)\<rparr>,
        acked = msgs, thrown = None \<rparr>"
    by (simp add: queue_unfold [OF run'] batch_messages_def empty_db_def)
  have "map excluded (map snd ?R) = map ?row ?R"
    unfolding map_map by (rule map_cong) (auto simp: excluded_zero [OF zero])
  with written have rows: "company_daily_stats (store (queue d1_run (Some msgs) empty_db)) = map ?row ?R"
    by simp
  from written have ack: "acked (queue d1_run (Some msgs) empty_db) = msgs"
    "thrown (queue d1_run (Some msgs) empty_db) = None"
    by simp_all
  from run distinct_keys_aggregate [of msgs] keys each logged rows ack
  show ?thesis
    by (intro exI [of _ ?R] conjI)
qed


theorem unrecognized_events_create_zero_rows_witness:
  "company_daily_stats (store (queue d1_run
      (Some [mk_message 30 (JNum 7) (JStr ''HOVER'') (JStr ''2024-05-01T08:00:00.000Z''),
             mk_message 31 (JNum 8) JUndefined (JStr ''2024-05-01T09:00:00.000Z''),
             mk_message 32 (JNum 7) (JStr ''profile_view'') (JStr ''2024-05-01T10:00:00.000Z'')])
      empty_db))
   = [\<lparr> col_company_id = JNum 7, col_date = ''2024-05-01'',
         col_views_profile = Some 0, col_impressions_search = Some 0,
         col_impressions_map = Some 0, col_clicks_phone = Some 0,
         col_clicks_site = Some 0, col_clicks_email = Some 0,
         col_clicks_directions = Some 0, col_leads_form = Some 0 \<rparr>,
      \<lparr> col_company_id = JNum 8, col_date = ''2024-05-01'',
         col_views_profile = Some 0, col_impressions_search = Some 0,
         col_impressions_map = Some 0, col_clicks_phone = Some 0,
         col_clicks_site = Some 0, col_clicks_email = Some 0,
         col_clicks_directions = Some 0, col_leads_form = Some 0 \<rparr>]
   \<and> acked (queue d1_run
      (Some [mk_message 30 (JNum 7) (JStr ''HOVER'') (JStr ''2024-05-01T08:00:00.000Z''),
             mk_message 31 (JNum 8) JUndefined (JStr ''2024-05-01T09:00:00.000Z''),
             mk_message 32 (JNum 7) (JStr ''profile_view'') (JStr ''2024-05-01T10:00:00.000Z'')])
      empty_db)
   = [mk_message 30 (JNum 7) (JStr ''HOVER'') (JStr ''2024-05-01T08:00:00.000Z''),
      mk_message 31 (JNum 8) JUndefined (JStr ''2024-05-01T09:00:00.000Z''),
      mk_message 32 (JNum 7) (JStr ''profile_view'') (JStr ''2024-05-01T10:00:00.000Z'')]"
proof -
  let ?msgs = "[mk_message 30 (JNum 7) (JStr ''HOVER'') (JStr ''2024-05-01T08:00:00.000Z''),
             mk_message 31 (JNum 8) JUndefined (JStr ''2024-05-01T09:00:00.000Z''),
             mk_message 32 (JNum 7) (JStr ''profile_view'') (JStr ''2024-05-01T10:00:00.000Z'')]"
  let ?row = "\<lambda>(k :: string, a :: aggregate).
                   \<lparr> col_company_id = agg_companyId a, col_date = agg_date a,
                     col_views_profile = Some 0, col_impressions_search = Some 0,
                     col_impressions_map = Some 0, col_clicks_phone = Some 0,
                     col_clicks_site = Some 0, col_clicks_email = Some 0,
                     col_clicks_directions = Some 0, col_leads_form = Some 0 \<rparr>"
  have hyp: "\<forall>m\<in>set ?msgs. passes (body m) \<and> is_string (createdAt (body m))
                 \<and> \<not> recognized (etype (body m))"
    by (simp add: mk_message_def passes_def recognized_def EventType_names_def)
  have ev: "aggregate_batch ?msgs =
      Inr [(''7:2024-05-01'', new_aggregate (JNum 7) ''2024-05-01''),
           (''8:2024-05-01'', new_aggregate (JNum 8) ''2024-05-01'')]"
    by (simp add: aggregate_batch_def mk_message_def step_def Let_def new_aggregate_def bump_def
          int_to_string_def digits.simps digit_char_def)
  from unrecognized_events_create_zero_rows [OF hyp] obtain aggs where
    a: "aggregate_batch ?msgs = Inr aggs"
    and rows: "company_daily_stats (store (queue d1_run (Some ?msgs) empty_db)) = map ?row aggs"
    and ack: "acked (queue d1_run (Some ?msgs) empty_db) = ?msgs"
    by (elim exE conjE) (rule that)
  from a ev have "aggs = [(''7:2024-05-01'', new_aggregate (JNum 7) ''2024-05-01''),
           (''8:2024-05-01'', new_aggregate (JNum 8) ''2024-05-01'')]"
    by simp
  with rows have "company_daily_stats (store (queue d1_run (Some ?msgs) empty_db))
     = [?row (''7:2024-05-01'', new_aggregate (JNum 7) ''2024-05-01''),
        ?row (''8:2024-05-01'', new_aggregate (JNum 8) ''2024-05-01'')]"
    by simp
  then show ?thesis
    using ack by (simp add: new_aggregate_def)
qed

section \<open>C10: a falsy identifier\<close>

lemma step_skip: "\<not> truthy (companyId e) \<Longrightarrow> step aggs e = Inr aggs"
  by (simp add: step_def)

lemma aggregate_loop_skip:
  "step aggs0 (body m) = Inr aggs0 \<Longrightarrow> aggregate_loop aggs0 (m # post) = aggregate_loop aggs0 post"
  by simp

text \<open>
  Claim C10. An event whose \<^verbatim>\<open>companyId\<close> is present but falsy (the number 0 or the
  empty string) leaves the mapping as it was, exactly as the same event without a
  \<^verbatim>\<open>companyId\<close> does; taking it out of a batch changes nothing in what the
  aggregator returns, so it contributes to no delta.
\<close>

theorem falsy_companyId_dropped:
  assumes "companyId (body m) = JNum 0 \<or> companyId (body m) = JStr ''''"
  shows "step aggs (body m) = Inr aggs
       \<and> step aggs (body m) = step aggs ((body m)\<lparr>companyId := JUndefined\<rparr>)
       \<and> aggregate_batch (pre @ m # post) = aggregate_batch (pre @ post)"
proof -
  from assms have falsy: "\<not> truthy (companyId (body m))"
    by auto
  then have skip: "\<And>a. step a (body m) = Inr a"
    by (rule step_skip)
  have missing: "step aggs ((body m)\<lparr>companyId := JUndefined\<rparr>) = Inr aggs"
    by (simp add: step_def)
  have "aggregate_loop [] (pre @ m # post) = aggregate_loop [] (pre @ post)"
    unfolding aggregate_loop_append
    by (cases "aggregate_loop [] pre") (simp_all add: skip)
  with skip missing show ?thesis
    by (simp add: aggregate_batch_def)
qed

theorem falsy_companyId_dropped_witness:
  "step [] (body (mk_message 21 (JNum 0) (JStr ''PROFILE_VIEW'') (JStr ''2024-05-01T08:00:00.000Z''))) = Inr []
   \<and> aggregate_batch
        [mk_message 20 (JNum 7) (JStr ''CLICK_EMAIL'') (JStr ''2024-05-01T07:00:00.000Z''),
         mk_message 21 (JNum 0) (JStr ''PROFILE_VIEW'') (JStr ''2024-05-01T08:00:00.000Z''),
         mk_message 22 (JNum 7) (JStr ''CLICK_EMAIL'') (JStr ''2024-05-01T09:00:00.000Z'')]
      = aggregate_batch
        [mk_message 20 (JNum 7) (JStr ''CLICK_EMAIL'') (JStr ''2024-05-01T07:00:00.000Z''),
         mk_message 22 (JNum 7) (JStr ''CLICK_EMAIL'') (JStr ''2024-05-01T09:00:00.000Z'')]"
  using falsy_companyId_dropped
    [of "mk_message 21 (JNum 0) (JStr ''PROFILE_VIEW'') (JStr ''2024-05-01T08:00:00.000Z'')" "[]"
        "[mk_message 20 (JNum 7) (JStr ''CLICK_EMAIL'') (JStr ''2024-05-01T07:00:00.000Z'')]"
        "[mk_message 22 (JNum 7) (JStr ''CLICK_EMAIL'') (JStr ''2024-05-01T09:00:00.000Z'')]"]
  by (simp add: mk_message_def)

end
